theory Spec2Isabelle
  imports Main "HOL-Library.Sublist"
begin

section \<open>Data model\<close>

text \<open>
  The session record of \<^verbatim>\<open>types.ts\<close> as the coordinator and status commands build and
  read it (\<^verbatim>\<open>startCoordinator\<close> writes every field). The lifecycle state is the closed
  set of labels the commands compare against.
\<close>

datatype SessionState = Booting | Working | Completed | Stalled | Zombie

record AgentSession =
  sessionId :: string
  agentName :: string
  capability :: string
  worktreePath :: string
  branchName :: string
  beadId :: string
  tmuxSession :: string
  state :: SessionState
  pid :: nat
  parentAgent :: "string option"
  depth :: nat
  startedAt :: string
  lastActivity :: string

text \<open>
  Thrown values. \<^verbatim>\<open>AgentError\<close> and \<^verbatim>\<open>ValidationError\<close> come from \<^verbatim>\<open>errors.ts\<close>:
  an \<^verbatim>\<open>AgentError\<close> is built from a message and an optional context object whose
  \<^verbatim>\<open>agentName\<close> it exposes (\<^verbatim>\<open>new AgentError("test error", { agentName: "failing-agent" })\<close>
  in the deployer's tests); built from the message alone it has no agent name.
  \<^verbatim>\<open>SyntaxError\<close> is what \<^verbatim>\<open>JSON.parse\<close> throws, \<^verbatim>\<open>IOError\<close> stands for a failed
  file-system or subprocess call.
\<close>

datatype exn =
    AgentError string "string option"
  | ValidationError string string string
  | SyntaxError
  | IOError string

fun isAgentError :: "exn \<Rightarrow> bool" where
  "isAgentError (AgentError m a) = True"
| "isAgentError e = False"

fun errorAgentName :: "exn \<Rightarrow> string option" where
  "errorAgentName (AgentError m a) = a"
| "errorAgentName e = None"

section \<open>The file system and the multiplexer\<close>

text \<open>
  The commands touch the disk through \<^verbatim>\<open>Bun.file(p).exists()\<close>, \<^verbatim>\<open>.text()\<close>,
  \<^verbatim>\<open>Bun.write\<close> and \<^verbatim>\<open>rename\<close>. A world holds the files, which paths can be read and
  written (a read or a write of the others throws), the multiplexer's answers, and the
  log of the primitive operations that changed the disk, oldest first.
\<close>

datatype fs_op = WriteFile string string | RenameFile string string

record world =
  files :: "string \<Rightarrow> string option"
  readable :: "string \<Rightarrow> bool"
  writable :: "string \<Rightarrow> bool"
  isSessionAlive :: "string \<Rightarrow> bool"
  listSessions :: "exn + (string \<times> nat) list"
  oplog :: "fs_op list"

definition file_exists :: "world \<Rightarrow> string \<Rightarrow> bool" where
  "file_exists w p = (files w p \<noteq> None)"

definition file_text :: "world \<Rightarrow> string \<Rightarrow> exn + string" where
  "file_text w p =
     (case files w p of
        None \<Rightarrow> Inl (IOError p)
      | Some t \<Rightarrow> if readable w p then Inr t else Inl (IOError p))"

definition Bun_write :: "string \<Rightarrow> string \<Rightarrow> world \<Rightarrow> (exn + unit) \<times> world" where
  "Bun_write p t w =
     (if writable w p
      then (Inr (), w\<lparr>files := (files w)(p \<mapsto> t), oplog := oplog w @ [WriteFile p t]\<rparr>)
      else (Inl (IOError p), w))"

definition rename :: "string \<Rightarrow> string \<Rightarrow> world \<Rightarrow> (exn + unit) \<times> world" where
  "rename src dst w =
     (case files w src of
        None \<Rightarrow> (Inl (IOError src), w)
      | Some t \<Rightarrow>
          if writable w dst
          then (Inr (), w\<lparr>files := (files w)(src := None, dst \<mapsto> t),
                            oplog := oplog w @ [RenameFile src dst]\<rparr>)
          else (Inl (IOError dst), w))"

text \<open>
  \<^verbatim>\<open>JSON.parse\<close> and \<^verbatim>\<open>JSON.stringify(_, null, "\t")\<close> belong to the runtime, so the
  commands take them as parameters: the parser throws (\<open>Inl\<close>) on text that is not JSON.
\<close>

record runtime =
  JSON_parse :: "string \<Rightarrow> exn + AgentSession list"
  JSON_stringify :: "AgentSession list \<Rightarrow> string"

text \<open>
  An \<^verbatim>\<open>async\<close> function is a computation over the world that either throws or returns.
  \<open>andThen\<close> is \<^verbatim>\<open>await\<close> followed by the rest of the body, \<open>tryCatch\<close> is
  \<^verbatim>\<open>try { ... } catch { ... }\<close>.
\<close>

type_synonym 'a io = "world \<Rightarrow> (exn + 'a) \<times> world"

definition ret :: "'a \<Rightarrow> 'a io" where
  "ret a w = (Inr a, w)"

definition throw :: "exn \<Rightarrow> 'a io" where
  "throw e w = (Inl e, w)"

definition andThen :: "'a io \<Rightarrow> ('a \<Rightarrow> 'b io) \<Rightarrow> 'b io" where
  "andThen m f w = (case m w of (Inl e, w') \<Rightarrow> (Inl e, w') | (Inr a, w') \<Rightarrow> f a w')"

definition tryCatch :: "'a io \<Rightarrow> (exn \<Rightarrow> 'a io) \<Rightarrow> 'a io" where
  "tryCatch m h w = (case m w of (Inl e, w') \<Rightarrow> h e w' | (Inr a, w') \<Rightarrow> (Inr a, w'))"

definition outcome :: "exn + 'a \<Rightarrow> 'a io" where
  "outcome r w = (r, w)"

definition attempt :: "exn option \<Rightarrow> unit io" where
  "attempt r = (case r of None \<Rightarrow> ret () | Some e \<Rightarrow> throw e)"

definition exists_io :: "string \<Rightarrow> bool io" where
  "exists_io p w = (Inr (file_exists w p), w)"

definition text_io :: "string \<Rightarrow> string io" where
  "text_io p w = (file_text w p, w)"

definition isSessionAlive_io :: "string \<Rightarrow> bool io" where
  "isSessionAlive_io name w = (Inr (isSessionAlive w name), w)"

definition listSessions_io :: "(string \<times> nat) list io" where
  "listSessions_io w = (listSessions w, w)"

text \<open>
  A string stands for the UTF-8 text of the JavaScript string. The bytes of \<^verbatim>\<open>/\<close> and
  \<^verbatim>\<open>.\<close> occur in no other character, so splitting a path at \<^verbatim>\<open>/\<close> is the same on
  both.
\<close>

fun splitOn :: "char \<Rightarrow> string \<Rightarrow> string list" where
  "splitOn d [] = [[]]"
| "splitOn d (c # cs) =
     (if c = d then [] # splitOn d cs
      else (case splitOn d cs of [] \<Rightarrow> [[c]] | p # ps \<Rightarrow> (c # p) # ps))"

fun joinSegments :: "string list \<Rightarrow> string" where
  "joinSegments [] = []"
| "joinSegments [p] = p"
| "joinSegments (p # q # ps) = p @ ''/'' @ joinSegments (q # ps)"

text \<open>
  \<^verbatim>\<open>normalizeString\<close> of \<^verbatim>\<open>node:path\<close>, on the segments of the path: \<open>res\<close> holds the
  segments kept so far, the last one first. An empty segment and \<^verbatim>\<open>.\<close> are dropped;
  \<^verbatim>\<open>..\<close> removes the segment before it unless there is none or it is \<^verbatim>\<open>..\<close> itself,
  and then it is kept for a relative path (\<open>allowAboveRoot\<close>) and dropped for an absolute
  one.
\<close>

fun normalizeSegments :: "bool \<Rightarrow> string list \<Rightarrow> string list \<Rightarrow> string list" where
  "normalizeSegments allowAboveRoot res [] = rev res"
| "normalizeSegments allowAboveRoot res (seg # segs) =
     (if seg = [] \<or> seg = ''.'' then normalizeSegments allowAboveRoot res segs
      else if seg = ''..'' then
        (if res \<noteq> [] \<and> hd res \<noteq> ''..'' then normalizeSegments allowAboveRoot (tl res) segs
         else if allowAboveRoot then normalizeSegments allowAboveRoot (''..'' # res) segs
         else normalizeSegments allowAboveRoot res segs)
      else normalizeSegments allowAboveRoot (seg # res) segs)"

text \<open>\<^verbatim>\<open>normalize\<close> of \<^verbatim>\<open>node:path\<close> (POSIX).\<close>

definition normalize :: "string \<Rightarrow> string" where
  "normalize path =
     (if path = [] then ''.''
      else
        (let isAbsolute = (hd path = CHR ''/'');
             trailingSeparator = (last path = CHR ''/'');
             body = joinSegments (normalizeSegments (\<not> isAbsolute) [] (splitOn CHR ''/'' path))
         in if body = [] then (if isAbsolute then ''/'' else if trailingSeparator then ''./'' else ''.'')
            else (if isAbsolute then ''/'' else []) @ body @
                 (if trailingSeparator then ''/'' else [])))"

text \<open>
  \<^verbatim>\<open>join\<close> of \<^verbatim>\<open>node:path\<close> (POSIX): the non-empty arguments joined with \<^verbatim>\<open>/\<close> and
  normalised; \<^verbatim>\<open>.\<close> when there is none.
\<close>

definition join :: "string list \<Rightarrow> string" where
  "join paths =
     (let parts = filter (\<lambda>p. p \<noteq> []) paths
      in if parts = [] then ''.'' else normalize (joinSegments parts))"

fun showNat :: "nat \<Rightarrow> string" where
  "showNat n =
     (if n < 10 then [''0123456789'' ! n]
      else showNat (n div 10) @ [''0123456789'' ! (n mod 10)])"

declare showNat.simps [simp del]

section \<open>coordinator.ts\<close>

definition COORDINATOR_NAME :: string where
  "COORDINATOR_NAME = ''coordinator''"

definition TMUX_SESSION :: string where
  "TMUX_SESSION = ''overstory-'' @ COORDINATOR_NAME"

text \<open>
  \<^verbatim>\<open>loadSessions\<close>: a missing file gives the empty list; otherwise the text is read and
  parsed inside a \<^verbatim>\<open>try\<close> whose \<^verbatim>\<open>catch\<close> returns the empty list. The cast
  \<^verbatim>\<open>as AgentSession[]\<close> checks nothing at run time.
\<close>

definition loadSessions :: "runtime \<Rightarrow> string \<Rightarrow> AgentSession list io" where
  "loadSessions rt sessionsPath =
     andThen (exists_io sessionsPath) (\<lambda>ex.
       if \<not> ex then ret []
       else tryCatch
              (andThen (text_io sessionsPath) (\<lambda>t. outcome (JSON_parse rt t)))
              (\<lambda>e. ret []))"

text \<open>\<^verbatim>\<open>saveSessions\<close>: one \<^verbatim>\<open>Bun.write\<close> of the pretty-printed list and a newline.\<close>

definition saveSessions :: "runtime \<Rightarrow> string \<Rightarrow> AgentSession list \<Rightarrow> unit io" where
  "saveSessions rt sessionsPath sessions =
     Bun_write sessionsPath (JSON_stringify rt sessions @ [CHR 0x0A])"

definition isActiveCoordinator :: "AgentSession \<Rightarrow> bool" where
  "isActiveCoordinator s =
     (agentName s = COORDINATOR_NAME \<and> capability s = ''coordinator'' \<and>
      state s \<noteq> Completed \<and> state s \<noteq> Zombie)"

definition findCoordinatorSession :: "AgentSession list \<Rightarrow> AgentSession option" where
  "findCoordinatorSession sessions = List.find isActiveCoordinator sessions"

text \<open>
  \<^verbatim>\<open>find\<close> returns the array's own object, so an assignment to a field of the result
  changes the first matching element of the array: \<open>updateFirst\<close> is that assignment.
\<close>

fun updateFirst :: "('a \<Rightarrow> bool) \<Rightarrow> ('a \<Rightarrow> 'a) \<Rightarrow> 'a list \<Rightarrow> 'a list" where
  "updateFirst P f [] = []"
| "updateFirst P f (x # xs) = (if P x then f x # xs else x # updateFirst P f xs)"

definition emDash :: string where
  "emDash = [CHR 0x20, CHR 0xE2, CHR 0x80, CHR 0x94, CHR 0x20]"

definition buildCoordinatorBeacon :: "string \<Rightarrow> string" where
  "buildCoordinatorBeacon timestamp =
     ''[OVERSTORY] '' @ COORDINATOR_NAME @ '' (coordinator) '' @ timestamp @ emDash @
     ''Depth: 0 | Parent: none | Role: persistent orchestrator'' @ emDash @
     ''Startup: run mulch prime, check mail (overstory mail check --agent '' @ COORDINATOR_NAME @
     ''), check bd ready, check overstory group status, then await instructions''"

definition resolveAttach :: "string list \<Rightarrow> bool \<Rightarrow> bool" where
  "resolveAttach args isTTY =
     (if ''--attach'' \<in> set args then True
      else if ''--no-attach'' \<in> set args then False
      else isTTY)"

text \<open>
  The calls \<^verbatim>\<open>startCoordinator\<close> and \<^verbatim>\<open>stopCoordinator\<close> make into modules that are not
  part of these sources (\<^verbatim>\<open>config.ts\<close>, \<^verbatim>\<open>hooks-deployer.ts\<close>, \<^verbatim>\<open>identity.ts\<close>,
  \<^verbatim>\<open>tmux.ts\<close>) are given by their outcome: what they return, or what they throw. The clock
  readings of \<^verbatim>\<open>new Date()\<close> and \<^verbatim>\<open>Date.now()\<close> are inputs as well.
\<close>

record config =
  root :: string
  canonicalBranch :: string

record collaborators =
  loadConfig :: "exn + config"
  deployHooks :: "string \<Rightarrow> string \<Rightarrow> string \<Rightarrow> exn option"
  ensureIdentity :: "string \<Rightarrow> string \<Rightarrow> exn option"
  createSession :: "string \<Rightarrow> string \<Rightarrow> string \<Rightarrow> exn + nat"
  sendKeys :: "string \<Rightarrow> string \<Rightarrow> exn option"
  killSession :: "string \<Rightarrow> exn option"
  beaconTime :: string
  idMillis :: nat
  startedAtTime :: string
  lastActivityTime :: string

record start_output =
  out_agentName :: string
  out_capability :: string
  out_tmuxSession :: string
  out_projectRoot :: string
  out_pid :: nat
  out_attach :: bool

text \<open>
  \<^verbatim>\<open>startCoordinator\<close>. The two \<^verbatim>\<open>Bun.sleep\<close> calls and the printing of the result change
  neither the registry nor the outcome and are left out; the returned record is the
  \<^verbatim>\<open>output\<close> object together with \<^verbatim>\<open>shouldAttach\<close>.
\<close>

definition startCoordinator ::
  "runtime \<Rightarrow> collaborators \<Rightarrow> string list \<Rightarrow> bool \<Rightarrow> start_output io" where
  "startCoordinator rt col args isTTY =
     (let shouldAttach = resolveAttach args isTTY in
      andThen (outcome (loadConfig col)) (\<lambda>cfg.
      let projectRoot = root cfg;
          sessionsPath = join [projectRoot, ''.overstory'', ''sessions.json'']
      in
      andThen (loadSessions rt sessionsPath) (\<lambda>sessions.
      andThen
        (case findCoordinatorSession sessions of
           None \<Rightarrow> ret sessions
         | Some existing \<Rightarrow>
             andThen (isSessionAlive_io (tmuxSession existing)) (\<lambda>alive.
               if alive
               then throw (AgentError
                      (''Coordinator is already running (tmux: '' @ tmuxSession existing @
                       '', since: '' @ startedAt existing @ '')'')
                      (Some COORDINATOR_NAME))
               else
                 let marked = updateFirst isActiveCoordinator (\<lambda>s. s\<lparr>state := Completed\<rparr>) sessions
                 in andThen (saveSessions rt sessionsPath marked) (\<lambda>u. ret marked)))
        (\<lambda>sessions.
      andThen (attempt (deployHooks col projectRoot COORDINATOR_NAME ''coordinator'')) (\<lambda>u.
      andThen (attempt (ensureIdentity col (join [projectRoot, ''.overstory'', ''agents''])
                          COORDINATOR_NAME)) (\<lambda>u.
      andThen (outcome (createSession col TMUX_SESSION projectRoot
                          ''claude --model opus --dangerously-skip-permissions'')) (\<lambda>pid.
      andThen (attempt (sendKeys col TMUX_SESSION (buildCoordinatorBeacon (beaconTime col)))) (\<lambda>u.
      andThen (attempt (sendKeys col TMUX_SESSION [])) (\<lambda>u.
      let session = \<lparr> sessionId = ''session-'' @ showNat (idMillis col) @ ''-'' @ COORDINATOR_NAME,
                      agentName = COORDINATOR_NAME,
                      capability = ''coordinator'',
                      worktreePath = projectRoot,
                      branchName = canonicalBranch cfg,
                      beadId = [],
                      tmuxSession = TMUX_SESSION,
                      state = Booting,
                      pid = pid,
                      parentAgent = None,
                      depth = 0,
                      startedAt = startedAtTime col,
                      lastActivity = lastActivityTime col \<rparr>
      in
      andThen (saveSessions rt sessionsPath (sessions @ [session])) (\<lambda>u.
      ret \<lparr> out_agentName = COORDINATOR_NAME,
            out_capability = ''coordinator'',
            out_tmuxSession = TMUX_SESSION,
            out_projectRoot = projectRoot,
            out_pid = pid,
            out_attach = shouldAttach \<rparr>))))))))))"

text \<open>
  \<^verbatim>\<open>stopCoordinator\<close> returns the id of the stopped session; a kill of the multiplexer
  session is attempted only when it is alive.
\<close>

definition stopCoordinator :: "runtime \<Rightarrow> collaborators \<Rightarrow> string list \<Rightarrow> string io" where
  "stopCoordinator rt col args =
     andThen (outcome (loadConfig col)) (\<lambda>cfg.
     let projectRoot = root cfg;
         sessionsPath = join [projectRoot, ''.overstory'', ''sessions.json'']
     in
     andThen (loadSessions rt sessionsPath) (\<lambda>sessions.
     case findCoordinatorSession sessions of
       None \<Rightarrow> throw (AgentError ''No active coordinator session found'' (Some COORDINATOR_NAME))
     | Some session \<Rightarrow>
         andThen (isSessionAlive_io (tmuxSession session)) (\<lambda>alive.
         andThen (if alive then attempt (killSession col (tmuxSession session)) else ret ()) (\<lambda>u.
         let stopped = updateFirst isActiveCoordinator
                         (\<lambda>s. s\<lparr>state := Completed, lastActivity := lastActivityTime col\<rparr>) sessions
         in andThen (saveSessions rt sessionsPath stopped) (\<lambda>u. ret (sessionId session))))))"

record coordinator_status =
  st_running :: bool
  st_sessionId :: string
  st_state :: SessionState
  st_tmuxSession :: string
  st_pid :: nat
  st_startedAt :: string
  st_lastActivity :: string

text \<open>
  \<^verbatim>\<open>statusCoordinator\<close> returns the \<^verbatim>\<open>status\<close> object it prints, or nothing when no
  coordinator session is active. Its reconciliation write is awaited outside any
  \<^verbatim>\<open>try\<close>.
\<close>

definition statusCoordinator ::
  "runtime \<Rightarrow> collaborators \<Rightarrow> string list \<Rightarrow> coordinator_status option io" where
  "statusCoordinator rt col args =
     andThen (outcome (loadConfig col)) (\<lambda>cfg.
     let projectRoot = root cfg;
         sessionsPath = join [projectRoot, ''.overstory'', ''sessions.json'']
     in
     andThen (loadSessions rt sessionsPath) (\<lambda>sessions.
     case findCoordinatorSession sessions of
       None \<Rightarrow> ret None
     | Some found \<Rightarrow>
         andThen (isSessionAlive_io (tmuxSession found)) (\<lambda>alive.
         andThen
           (if \<not> alive \<and> state found \<noteq> Completed \<and> state found \<noteq> Zombie
            then
              let session = found\<lparr>state := Zombie, lastActivity := lastActivityTime col\<rparr>;
                  reconciled = updateFirst isActiveCoordinator (\<lambda>s. session) sessions
              in andThen (saveSessions rt sessionsPath reconciled) (\<lambda>u. ret session)
            else ret found)
           (\<lambda>session.
         ret (Some \<lparr> st_running = alive,
                     st_sessionId = sessionId session,
                     st_state = state session,
                     st_tmuxSession = tmuxSession session,
                     st_pid = pid session,
                     st_startedAt = startedAt session,
                     st_lastActivity = lastActivity session \<rparr>)))))"

section \<open>status.ts\<close>

text \<open>
  \<^verbatim>\<open>status.ts\<close> has a loader of its own, from the project root.
\<close>

definition status_loadSessions :: "runtime \<Rightarrow> string \<Rightarrow> AgentSession list io" where
  "status_loadSessions rt rootDir =
     (let path = join [rootDir, ''.overstory'', ''sessions.json''] in
      andThen (exists_io path) (\<lambda>ex.
        if \<not> ex then ret []
        else tryCatch
               (andThen (text_io path) (\<lambda>t. outcome (JSON_parse rt t)))
               (\<lambda>e. ret [])))"

record StatusData =
  agents :: "AgentSession list"
  worktrees :: "(string \<times> string \<times> string) list"
  tmuxSessions :: "(string \<times> nat) list"
  unreadMailCount :: nat
  mergeQueueCount :: nat
  recentMetricsCount :: nat

text \<open>
  What \<^verbatim>\<open>gatherStatus\<close> gets from modules outside these sources: the worktree list
  (awaited outside any \<^verbatim>\<open>try\<close>), the three counts (each computed inside a
  \<^verbatim>\<open>try\<close> with a default, so each is a number) and the closing of the mail store.
\<close>

record status_collaborators =
  listWorktrees :: "string \<Rightarrow> exn + (string \<times> string \<times> string) list"
  unreadMail :: "string \<Rightarrow> nat"
  pendingMerges :: nat
  recentMetrics :: nat
  closeMailStore :: "exn option"

text \<open>
  The reconciliation loop of \<^verbatim>\<open>gatherStatus\<close>: it walks the sessions in order, turns a
  booting, working or stalled session whose multiplexer session is not listed into a
  zombie, and raises the flag \<^verbatim>\<open>sessionsUpdated\<close>. The only field it assigns is
  \<^verbatim>\<open>state\<close>.
\<close>

fun reconcile ::
  "(string \<times> nat) list \<Rightarrow> AgentSession list \<Rightarrow> bool \<Rightarrow> AgentSession list \<times> bool" where
  "reconcile tmux [] sessionsUpdated = ([], sessionsUpdated)"
| "reconcile tmux (session # rest) sessionsUpdated =
     (if state session = Booting \<or> state session = Working \<or> state session = Stalled
      then
        (let tmuxAlive = list_ex (\<lambda>s. fst s = tmuxSession session) tmux in
         if \<not> tmuxAlive
         then (case reconcile tmux rest True of
                 (rest', u) \<Rightarrow> (session\<lparr>state := Zombie\<rparr> # rest', u))
         else (case reconcile tmux rest sessionsUpdated of
                 (rest', u) \<Rightarrow> (session # rest', u)))
      else (case reconcile tmux rest sessionsUpdated of
              (rest', u) \<Rightarrow> (session # rest', u)))"

text \<open>
  \<^verbatim>\<open>gatherStatus\<close>. The per-agent \<^verbatim>\<open>verboseDetails\<close> read the sessions after the
  reconciliation and change nothing; they are left out of the result.
\<close>

definition gatherStatus ::
  "runtime \<Rightarrow> status_collaborators \<Rightarrow> string \<Rightarrow> string \<Rightarrow> StatusData io" where
  "gatherStatus rt sc rootDir agent =
     andThen (status_loadSessions rt rootDir) (\<lambda>loaded.
     andThen (outcome (listWorktrees sc rootDir)) (\<lambda>wts.
     andThen (tryCatch listSessions_io (\<lambda>e. ret [])) (\<lambda>tmux.
     case reconcile tmux loaded False of (sessions, sessionsUpdated) \<Rightarrow>
     andThen
       (if sessionsUpdated
        then tryCatch
               (let sessionsPath = join [rootDir, ''.overstory'', ''sessions.json''];
                    tmpPath = sessionsPath @ ''.tmp''
                in andThen (Bun_write tmpPath (JSON_stringify rt sessions @ [CHR 0x0A])) (\<lambda>u.
                   rename tmpPath sessionsPath))
               (\<lambda>e. ret ())
        else ret ())
       (\<lambda>u.
     andThen (attempt (closeMailStore sc)) (\<lambda>u.
     ret \<lparr> agents = sessions,
           worktrees = wts,
           tmuxSessions = tmux,
           unreadMailCount = unreadMail sc agent,
           mergeQueueCount = pendingMerges sc,
           recentMetricsCount = recentMetrics sc \<rparr>)))))"

text \<open>
  A change of the file at path \<open>p\<close> is an atomic replace when it is a rename of another
  file over \<open>p\<close>; a \<^verbatim>\<open>Bun.write\<close> to \<open>p\<close> itself truncates and fills the file in
  place. \<open>atomicReplaceOnly p ops\<close>: no operation of \<open>ops\<close> writes \<open>p\<close> in place.
\<close>

fun writesInPlace :: "string \<Rightarrow> fs_op \<Rightarrow> bool" where
  "writesInPlace p (WriteFile q t) = (q = p)"
| "writesInPlace p (RenameFile src dst) = False"

definition atomicReplaceOnly :: "string \<Rightarrow> fs_op list \<Rightarrow> bool" where
  "atomicReplaceOnly p ops = (\<not> list_ex (writesInPlace p) ops)"

section \<open>mulch/client.ts\<close>

record proc_result =
  stdout :: string
  stderr :: string
  exitCode :: int

text \<open>
  The white space and the line terminators of ECMAScript, each as its UTF-8 bytes: TAB,
  LF, VT, FF, CR, SPACE, U+00A0, U+1680, U+2000 to U+200A, U+2028, U+2029, U+202F, U+205F,
  U+3000 and U+FEFF.
\<close>

definition whiteSpace :: "string list" where
  "whiteSpace =
     [[CHR 0x09], [CHR 0x0A], [CHR 0x0B], [CHR 0x0C], [CHR 0x0D], [CHR 0x20],
      [CHR 0xC2, CHR 0xA0],
      [CHR 0xE1, CHR 0x9A, CHR 0x80],
      [CHR 0xE2, CHR 0x80, CHR 0x80], [CHR 0xE2, CHR 0x80, CHR 0x81],
      [CHR 0xE2, CHR 0x80, CHR 0x82], [CHR 0xE2, CHR 0x80, CHR 0x83],
      [CHR 0xE2, CHR 0x80, CHR 0x84], [CHR 0xE2, CHR 0x80, CHR 0x85],
      [CHR 0xE2, CHR 0x80, CHR 0x86], [CHR 0xE2, CHR 0x80, CHR 0x87],
      [CHR 0xE2, CHR 0x80, CHR 0x88], [CHR 0xE2, CHR 0x80, CHR 0x89],
      [CHR 0xE2, CHR 0x80, CHR 0x8A],
      [CHR 0xE2, CHR 0x80, CHR 0xA8], [CHR 0xE2, CHR 0x80, CHR 0xA9],
      [CHR 0xE2, CHR 0x80, CHR 0xAF],
      [CHR 0xE2, CHR 0x81, CHR 0x9F],
      [CHR 0xE3, CHR 0x80, CHR 0x80],
      [CHR 0xEF, CHR 0xBB, CHR 0xBF]]"

text \<open>
  \<open>stripLeading\<close> removes from the front of a text every leading occurrence of one of
  the given byte sequences. In UTF-8 text a character's bytes at the front, or at the
  end, of the text are that character, so stripping the sequences strips the characters.
\<close>

function stripLeading :: "string list \<Rightarrow> string \<Rightarrow> string" where
  "stripLeading pats s =
     (case List.find (\<lambda>p. p \<noteq> [] \<and> prefix p s) pats of
        None \<Rightarrow> s
      | Some p \<Rightarrow> stripLeading pats (drop (length p) s))"
  by pat_completeness auto
termination
  by (relation "measure (\<lambda>(pats, s). length s)") (auto simp: find_Some_iff prefix_def)

declare stripLeading.simps [simp del]

text \<open>\<^verbatim>\<open>String.prototype.trim\<close>: the white space at both ends is removed.\<close>

definition trimStart :: "string \<Rightarrow> string" where
  "trimStart s = stripLeading whiteSpace s"

definition trimEnd :: "string \<Rightarrow> string" where
  "trimEnd s = rev (stripLeading (map rev whiteSpace) (rev s))"

definition trim :: "string \<Rightarrow> string" where
  "trim s = trimEnd (trimStart s)"

definition showInt :: "int \<Rightarrow> string" where
  "showInt i = (if i < 0 then ''-'' @ showNat (nat (- i)) else showNat (nat i))"

text \<open>
  \<^verbatim>\<open>runCommand\<close> spawns the process and collects its output; the subprocess is the
  parameter \<open>spawn\<close>, from the command line and the directory to what it printed and
  its exit code (or what \<^verbatim>\<open>Bun.spawn\<close> threw).
\<close>

definition runCommand ::
  "(string list \<Rightarrow> string \<Rightarrow> exn + proc_result) \<Rightarrow> string list \<Rightarrow> string \<Rightarrow> exn + proc_result" where
  "runCommand spawn cmd cwd = spawn cmd cwd"

text \<open>
  \<^verbatim>\<open>runMulch\<close> inside \<^verbatim>\<open>createMulchClient(cwd)\<close>: the error it throws is built from the
  message alone.
\<close>

definition runMulch ::
  "(string list \<Rightarrow> string \<Rightarrow> exn + proc_result) \<Rightarrow> string \<Rightarrow> string list \<Rightarrow> string
     \<Rightarrow> exn + (string \<times> string)" where
  "runMulch spawn cwd args ctx =
     (case runCommand spawn (''mulch'' # args) cwd of
        Inl e \<Rightarrow> Inl e
      | Inr r \<Rightarrow>
          if exitCode r \<noteq> 0
          then Inl (AgentError
                 (''mulch '' @ ctx @ '' failed (exit '' @ showInt (exitCode r) @ ''): '' @
                  trim (stderr r))
                 None)
          else Inr (stdout r, stderr r))"

section \<open>agents/hooks-deployer.ts\<close>

text \<open>
  Modelled from the spec: \<^verbatim>\<open>agents/hooks-deployer.ts\<close> (\<^verbatim>\<open>getDangerGuards\<close>,
  \<^verbatim>\<open>getCapabilityGuards\<close>, \<^verbatim>\<open>deployHooks\<close>) and its template are not among the sources;
  only the tests of the module are. The definitions of this section follow sections 4.1,
  4.2 and 6 of the specification, with the function names and the call shapes of the
  tests.

  A rule of the workspace config is \<^verbatim>\<open>{matcher, hooks: [{type: "command", command}]}\<close>;
  the empty matcher marks the unconditional base rule.
\<close>

record HookCommand =
  hookType :: string
  command :: string

record HookEntry =
  matcher :: string
  hooks :: "HookCommand list"

text \<open>
  Modelled from the spec: the text of the guard scripts is not given by the
  specification, which states only what each script decides. The scripts are parameters:
  the danger guard's script for an agent name, the block command for a tool and a
  reason, and the file guard's script for a capability and its extra safe prefixes.
\<close>

record guard_scripts =
  dangerScript :: "string \<Rightarrow> string"
  blockCommand :: "string \<Rightarrow> string \<Rightarrow> string"
  fileGuardScript :: "string \<Rightarrow> string list \<Rightarrow> string"

text \<open>
  Modelled from the spec: a block guard is one rule on a tool whose command emits the
  block decision.
\<close>

definition blockGuard :: "guard_scripts \<Rightarrow> string \<Rightarrow> string \<Rightarrow> HookEntry" where
  "blockGuard gs tool reason =
     \<lparr> matcher = tool, hooks = [\<lparr> hookType = ''command'', command = blockCommand gs tool reason \<rparr>] \<rparr>"

text \<open>
  Modelled from the spec: the danger guard is singular, on the generic execution channel
  (\<^verbatim>\<open>Bash\<close>), and has the same shape for every capability; its script knows the agent's
  own branch namespace.
\<close>

definition getDangerGuards :: "guard_scripts \<Rightarrow> string \<Rightarrow> HookEntry list" where
  "getDangerGuards gs agent =
     [\<lparr> matcher = ''Bash'', hooks = [\<lparr> hookType = ''command'', command = dangerScript gs agent \<rparr>] \<rparr>]"

text \<open>
  Modelled from the spec: the non-implementation roles of section 4.1. The specification
  names no label that is "unrecognized but elevated", and the tests give an unknown label
  the implementation role's guards, so the set is the five named roles.
\<close>

definition NON_IMPLEMENTATION_CAPABILITIES :: "string list" where
  "NON_IMPLEMENTATION_CAPABILITIES =
     [''scout'', ''reviewer'', ''lead'', ''coordinator'', ''supervisor'']"

text \<open>
  Modelled from the spec: the tools of the file-create, file-edit and notebook-edit
  categories, under the names the tests look up.
\<close>

definition WRITE_TOOLS :: "string list" where
  "WRITE_TOOLS = [''Write'', ''Edit'', ''NotebookEdit'']"

text \<open>
  Modelled from the spec: the capability-specific extras of the file guard's allow-list,
  "stage/commit for a coordinator".
\<close>

definition extraSafePrefixes :: "string \<Rightarrow> string list" where
  "extraSafePrefixes cap = (if cap = ''coordinator'' then [''git add'', ''git commit''] else [])"

text \<open>
  Modelled from the spec: \<^verbatim>\<open>getCapabilityGuards\<close>. Every capability gets one block per
  native team tool (the universal blocks; the specification fixes their number, ten, and
  neither their names nor the text of their redirections, so the list of the tools, each
  with its reason, is the parameter \<open>teamTools\<close>). A
  non-implementation capability gets in addition the three blocks of the file-create,
  file-edit and notebook-edit tools, each naming the capability, and one file guard on
  \<^verbatim>\<open>Bash\<close>. The danger guard is not part of this list: \<^verbatim>\<open>getDangerGuards\<close> makes it.
\<close>

definition getCapabilityGuards ::
  "(string \<times> string) list \<Rightarrow> guard_scripts \<Rightarrow> string \<Rightarrow> HookEntry list" where
  "getCapabilityGuards teamTools gs cap =
     map (\<lambda>(tool, reason). blockGuard gs tool reason) teamTools @
     (if cap \<in> set NON_IMPLEMENTATION_CAPABILITIES
      then map (\<lambda>tool. blockGuard gs tool (cap @ '' agents cannot modify files'')) WRITE_TOOLS @
           [\<lparr> matcher = ''Bash'',
              hooks = [\<lparr> hookType = ''command'',
                         command = fileGuardScript gs cap (extraSafePrefixes cap) \<rparr>] \<rparr>]
      else [])"

text \<open>Modelled from the spec: the agent-name placeholder of the template.\<close>

definition AGENT_NAME_PLACEHOLDER :: string where
  "AGENT_NAME_PLACEHOLDER = ''{{AGENT_NAME}}''"

text \<open>
  Modelled from the spec: "substitutes every occurrence of an agent-name placeholder with
  the literal name". \<open>replaceAll\<close> scans the text from the left and replaces each
  occurrence it meets, as \<^verbatim>\<open>String.prototype.replaceAll\<close> does.
\<close>

function replaceAll :: "string \<Rightarrow> string \<Rightarrow> string \<Rightarrow> string" where
  "replaceAll pat rep [] = []"
| "replaceAll pat rep (c # cs) =
     (if pat \<noteq> [] \<and> prefix pat (c # cs)
      then rep @ replaceAll pat rep (drop (length pat) (c # cs))
      else c # replaceAll pat rep cs)"
  by pat_completeness auto
termination
  by (relation "measure (\<lambda>(pat, rep, s). length s)") (auto simp: neq_Nil_conv)

text \<open>Modelled from the spec: the substitution reaches every string of a rule.\<close>

definition substituteEntry :: "string \<Rightarrow> HookEntry \<Rightarrow> HookEntry" where
  "substituteEntry agent e =
     \<lparr> matcher = replaceAll AGENT_NAME_PLACEHOLDER agent (matcher e),
       hooks = map (\<lambda>h. \<lparr> hookType = replaceAll AGENT_NAME_PLACEHOLDER agent (hookType h),
                           command = replaceAll AGENT_NAME_PLACEHOLDER agent (command h) \<rparr>)
                   (hooks e) \<rparr>"

text \<open>
  Modelled from the spec: the config \<^verbatim>\<open>deployHooks\<close> writes, as the object under
  \<^verbatim>\<open>hooks\<close>: the template's categories in the template's order, the placeholder
  substituted in every rule, and the guard set (danger guard first, then the capability's
  guards) prepended to the pre-tool-use list. The template is a parameter. An omitted
  capability behaves as an implementation role.
\<close>

definition deployedHooks ::
  "(string \<times> string) list \<Rightarrow> guard_scripts \<Rightarrow> (string \<times> HookEntry list) list \<Rightarrow> string
     \<Rightarrow> string option
     \<Rightarrow> (string \<times> HookEntry list) list" where
  "deployedHooks teamTools gs template agent capabilityArg =
     (let cap = (case capabilityArg of None \<Rightarrow> ''builder'' | Some c \<Rightarrow> c);
          guards = getDangerGuards gs agent @ getCapabilityGuards teamTools gs cap
      in map (\<lambda>(category, rules).
                (category,
                 (if category = ''PreToolUse'' then guards else []) @
                 map (substituteEntry agent) rules))
             template)"

text \<open>
  In a pre-tool-use list, every rule with a non-empty matcher precedes the first rule with
  an empty matcher: after the leading rules with a non-empty matcher, only rules with an
  empty matcher follow.
\<close>

definition guardsBeforeBase :: "HookEntry list \<Rightarrow> bool" where
  "guardsBeforeBase rules =
     list_all (\<lambda>e. matcher e = []) (dropWhile (\<lambda>e. matcher e \<noteq> []) rules)"

text \<open>
  Modelled from the spec: the I/O of \<^verbatim>\<open>deployHooks(worktreePath, agentName, capability?)\<close>
  (section 4.2). It loads the fixed template, builds the config, ensures that the config
  directory \<^verbatim>\<open>.claude\<close> of the workspace exists and overwrites
  \<^verbatim>\<open>settings.local.json\<close> there (the path the tests read back). The location of the
  template, the reading of its text into categories and the printing of the config are
  parameters. Creating the directory changes nothing that the world records; it fails
  where the path cannot be written.
\<close>

record deploy_runtime =
  templateFile :: string
  parseTemplate :: "string \<Rightarrow> exn + (string \<times> HookEntry list) list"
  printConfig :: "(string \<times> HookEntry list) list \<Rightarrow> string"

definition mkdir_recursive :: "string \<Rightarrow> unit io" where
  "mkdir_recursive dir w = (if writable w dir then (Inr (), w) else (Inl (IOError dir), w))"

text \<open>
  Modelled from the spec: "fails with a tagged error carrying the agent name on I/O
  failure (inaccessible destination, missing template, permission denied)". Each of the
  three I/O steps is wrapped: what it throws is replaced by an \<^verbatim>\<open>AgentError\<close> whose
  context holds the agent name. The specification does not give the messages; the
  model's name the step and the path.
\<close>

definition tagged :: "string \<Rightarrow> string \<Rightarrow> 'a io \<Rightarrow> 'a io" where
  "tagged agent msg m = tryCatch m (\<lambda>e. throw (AgentError msg (Some agent)))"

definition deployHooks_io ::
  "deploy_runtime \<Rightarrow> (string \<times> string) list \<Rightarrow> guard_scripts \<Rightarrow> string \<Rightarrow> string
     \<Rightarrow> string option \<Rightarrow> unit io" where
  "deployHooks_io dr teamTools gs workspace agent capabilityArg =
     andThen (tagged agent (''Failed to read hooks template: '' @ templateFile dr)
                (text_io (templateFile dr)))
       (\<lambda>content.
     andThen (outcome (parseTemplate dr content))
       (\<lambda>template.
     (let claudeDir = join [workspace, ''.claude''];
          outputPath = join [claudeDir, ''settings.local.json'']
      in andThen (tagged agent (''Failed to create directory: '' @ claudeDir)
                    (mkdir_recursive claudeDir))
           (\<lambda>u. tagged agent (''Failed to write hooks config: '' @ outputPath)
                   (Bun_write outputPath
                      (printConfig dr (deployedHooks teamTools gs template agent capabilityArg)))))))"

section \<open>Sample inputs\<close>

text \<open>
  Concrete inputs at which the theorems below are instantiated: the coordinator session of
  the tests, a registry file holding it, a file that is not JSON, and collaborators that
  succeed. The sample runtime parses exactly the sample registry text and prints a
  session as its id, state and last activity.
\<close>

fun stateLabel :: "SessionState \<Rightarrow> string" where
  "stateLabel Booting = ''booting''"
| "stateLabel Working = ''working''"
| "stateLabel Completed = ''completed''"
| "stateLabel Stalled = ''stalled''"
| "stateLabel Zombie = ''zombie''"

definition sampleSession :: AgentSession where
  "sampleSession =
     \<lparr> sessionId = ''session-dead-coordinator'', agentName = ''coordinator'',
       capability = ''coordinator'', worktreePath = ''/repo'', branchName = ''main'',
       beadId = [], tmuxSession = ''overstory-coordinator'', state = Working, pid = 99999,
       parentAgent = None, depth = 0, startedAt = ''T0'', lastActivity = ''T0'' \<rparr>"

definition sampleRuntime :: runtime where
  "sampleRuntime =
     \<lparr> JSON_parse = (\<lambda>t. if t = ''[working]'' then Inr [sampleSession] else Inl SyntaxError),
       JSON_stringify = (\<lambda>ss. concat (map (\<lambda>s. sessionId s @ '' '' @ stateLabel (state s) @ '' '' @
                                              lastActivity s @ '';'') ss)) \<rparr>"

definition sampleWorld :: "bool \<Rightarrow> bool \<Rightarrow> world" where
  "sampleWorld alive canWrite =
     \<lparr> files = [''/repo/.overstory/sessions.json'' \<mapsto> ''[working]'',
                ''/repo/.overstory/broken.json'' \<mapsto> ''not valid json''],
       readable = (\<lambda>p. True),
       writable = (\<lambda>p. canWrite),
       isSessionAlive = (\<lambda>n. alive),
       listSessions = Inr (if alive then [(''overstory-coordinator'', 99999)] else []),
       oplog = [] \<rparr>"

definition sampleConfig :: config where
  "sampleConfig = \<lparr> root = ''/repo'', canonicalBranch = ''main'' \<rparr>"

definition sampleCollaborators :: collaborators where
  "sampleCollaborators =
     \<lparr> loadConfig = Inr sampleConfig,
       deployHooks = (\<lambda>r n c. None),
       ensureIdentity = (\<lambda>d n. None),
       createSession = (\<lambda>n d c. Inr 99999),
       sendKeys = (\<lambda>n k. None),
       killSession = (\<lambda>n. None),
       beaconTime = ''T1'', idMillis = 1700,
       startedAtTime = ''T2'', lastActivityTime = ''T3'' \<rparr>"

definition sampleStatusCollaborators :: status_collaborators where
  "sampleStatusCollaborators =
     \<lparr> listWorktrees = (\<lambda>r. Inr []), unreadMail = (\<lambda>a. 0), pendingMerges = 0,
       recentMetrics = 0, closeMailStore = None \<rparr>"

definition failingMulch :: "string list \<Rightarrow> string \<Rightarrow> exn + proc_result" where
  "failingMulch cmd cwd = Inr \<lparr> stdout = [], stderr = '' no such domain '', exitCode = 1 \<rparr>"

text \<open>
  For the deployer: ten team tools, scripts that only name their arguments, and a
  template with the six categories and the commands the tests read back.
\<close>

definition sampleTeamTools :: "(string \<times> string) list" where
  "sampleTeamTools =
     [(''Task'', ''use overstory sling''), (''TeamCreate'', ''use overstory sling''),
      (''TeamDelete'', ''use overstory sling''), (''SendMessage'', ''use overstory mail''),
      (''TaskCreate'', ''use overstory sling''), (''TaskUpdate'', ''use overstory sling''),
      (''TaskList'', ''use overstory status''), (''TaskGet'', ''use overstory status''),
      (''TaskOutput'', ''use overstory status''), (''TaskStop'', ''use overstory sling'')]"

definition sampleScripts :: guard_scripts where
  "sampleScripts =
     \<lparr> dangerScript = (\<lambda>agent. ''danger overstory/'' @ agent @ ''/''),
       blockCommand = (\<lambda>tool reason. ''block '' @ reason),
       fileGuardScript = (\<lambda>cap extras. ''fileguard '' @ cap) \<rparr>"

definition sampleBaseRule :: HookEntry where
  "sampleBaseRule =
     \<lparr> matcher = [],
       hooks = [\<lparr> hookType = ''command'',
                  command = ''overstory log tool-start --agent {{AGENT_NAME}}'' \<rparr>] \<rparr>"

definition sampleTemplate :: "(string \<times> HookEntry list) list" where
  "sampleTemplate =
     [(''SessionStart'',
         [\<lparr> matcher = [], hooks = [\<lparr> hookType = ''command'',
              command = ''overstory prime --agent {{AGENT_NAME}}'' \<rparr>] \<rparr>]),
      (''UserPromptSubmit'',
         [\<lparr> matcher = [], hooks = [\<lparr> hookType = ''command'',
              command = ''overstory mail check --inject --agent {{AGENT_NAME}}'' \<rparr>] \<rparr>]),
      (''PreToolUse'', [sampleBaseRule]),
      (''PostToolUse'',
         [\<lparr> matcher = [], hooks = [\<lparr> hookType = ''command'',
              command = ''overstory log tool-end --agent {{AGENT_NAME}}'' \<rparr>] \<rparr>]),
      (''Stop'',
         [\<lparr> matcher = [], hooks = [\<lparr> hookType = ''command'',
              command = ''overstory log session-end --agent {{AGENT_NAME}}'' \<rparr>] \<rparr>]),
      (''PreCompact'',
         [\<lparr> matcher = [], hooks = [\<lparr> hookType = ''command'',
              command = ''overstory prime --agent {{AGENT_NAME}} --compact'' \<rparr>] \<rparr>])]"

text \<open>
  For the deployment: a runtime that finds the template at a fixed path and reads one
  text as the sample template, and a world that holds the template file.
\<close>

definition sampleDeployRuntime :: deploy_runtime where
  "sampleDeployRuntime =
     \<lparr> templateFile = ''/overstory/templates/hooks.json.tmpl'',
       parseTemplate = (\<lambda>t. if t = ''[template]'' then Inr sampleTemplate else Inl SyntaxError),
       printConfig = (\<lambda>cfg. concat (map (\<lambda>(category, rules). category @ '';'') cfg)) \<rparr>"

definition deployWorld :: "bool \<Rightarrow> world" where
  "deployWorld canWrite =
     \<lparr> files = [''/overstory/templates/hooks.json.tmpl'' \<mapsto> ''[template]''],
       readable = (\<lambda>p. True),
       writable = (\<lambda>p. canWrite),
       isSessionAlive = (\<lambda>n. False),
       listSessions = Inr [],
       oplog = [] \<rparr>"

section \<open>Auxiliary lemmas\<close>

lemma sample_join [simp]:
  "join [''/repo'', ''.overstory'', ''sessions.json''] = ''/repo/.overstory/sessions.json''"
  by (simp add: join_def normalize_def)

lemma andThen_ret [simp]: "andThen (ret a) f w = f a w"
  by (simp add: andThen_def ret_def)

lemma andThen_throw [simp]: "andThen (throw e) f w = (Inl e, w)"
  by (simp add: andThen_def throw_def)

lemma andThen_outcome_Inr [simp]: "andThen (outcome (Inr a)) f w = f a w"
  by (simp add: andThen_def outcome_def)

lemma andThen_outcome_Inl [simp]: "andThen (outcome (Inl e)) f w = (Inl e, w)"
  by (simp add: andThen_def outcome_def)

lemma andThen_attempt_None [simp]: "andThen (attempt None) f w = f () w"
  by (simp add: attempt_def)

lemma andThen_attempt_Some [simp]: "andThen (attempt (Some e)) f w = (Inl e, w)"
  by (simp add: attempt_def)

lemma andThen_alive [simp]: "andThen (isSessionAlive_io n) f w = f (isSessionAlive w n) w"
  by (simp add: andThen_def isSessionAlive_io_def)

lemma andThen_assoc [simp]: "andThen (andThen m f) g = andThen m (\<lambda>a. andThen (f a) g)"
  by (rule ext) (simp add: andThen_def split: prod.splits sum.splits)

lemma saveSessions_writable:
  "writable w p \<Longrightarrow>
   saveSessions rt p ss w =
     (Inr (), w\<lparr>files := (files w)(p \<mapsto> JSON_stringify rt ss @ [CHR 0x0A]),
               oplog := oplog w @ [WriteFile p (JSON_stringify rt ss @ [CHR 0x0A])]\<rparr>)"
  by (simp add: saveSessions_def Bun_write_def)

lemma saveSessions_unwritable:
  "\<not> writable w p \<Longrightarrow> saveSessions rt p ss w = (Inl (IOError p), w)"
  by (simp add: saveSessions_def Bun_write_def)

lemma andThen_loadSessions:
  "loadSessions rt p w = (Inr ss, w') \<Longrightarrow> andThen (loadSessions rt p) f w = f ss w'"
  by (simp add: andThen_def)

lemma andThen_saveSessions:
  "writable w p \<Longrightarrow>
   andThen (saveSessions rt p ss) f w =
     f () (w\<lparr>files := (files w)(p \<mapsto> JSON_stringify rt ss @ [CHR 0x0A]),
               oplog := oplog w @ [WriteFile p (JSON_stringify rt ss @ [CHR 0x0A])]\<rparr>)"
  by (simp add: andThen_def saveSessions_writable)

lemma updateFirst_find:
  "List.find P xs = Some x \<Longrightarrow>
   \<exists>ys zs. xs = ys @ x # zs \<and> list_all (\<lambda>y. \<not> P y) ys \<and> updateFirst P f xs = ys @ f x # zs"
proof (induction xs)
  case Nil
  then show ?case by simp
next
  case (Cons a xs)
  show ?case
  proof (cases "P a")
    case True
    with Cons.prems have "a = x" by simp
    with True show ?thesis by (intro exI [of _ "[]"] exI [of _ xs]) simp
  next
    case False
    with Cons.prems have "List.find P xs = Some x" by simp
    from Cons.IH [OF this] obtain ys zs where
      "xs = ys @ x # zs" "list_all (\<lambda>y. \<not> P y) ys" "updateFirst P f xs = ys @ f x # zs"
      by blast
    with False show ?thesis by (intro exI [of _ "a # ys"] exI [of _ zs]) simp
  qed
qed

lemma sample_load:
  "loadSessions sampleRuntime ''/repo/.overstory/sessions.json'' (sampleWorld a b) =
     (Inr [sampleSession], sampleWorld a b)"
  by (simp add: loadSessions_def andThen_def exists_io_def tryCatch_def text_io_def outcome_def
      ret_def file_exists_def file_text_def sampleRuntime_def sampleWorld_def)

lemma sample_status_load:
  "status_loadSessions sampleRuntime ''/repo'' (sampleWorld a b) =
     (Inr [sampleSession], sampleWorld a b)"
  by (simp add: status_loadSessions_def Let_def andThen_def exists_io_def tryCatch_def text_io_def
      outcome_def ret_def file_exists_def file_text_def sampleRuntime_def sampleWorld_def)

lemma sample_find: "findCoordinatorSession [sampleSession] = Some sampleSession"
  by (simp add: findCoordinatorSession_def isActiveCoordinator_def sampleSession_def
      COORDINATOR_NAME_def)

lemma sample_gatherStatus:
  "gatherStatus sampleRuntime sampleStatusCollaborators ''/repo'' ''orchestrator''
          (sampleWorld False True) =
       (Inr \<lparr> agents = [sampleSession\<lparr>state := Zombie\<rparr>], worktrees = [], tmuxSessions = [],
           unreadMailCount = 0, mergeQueueCount = 0, recentMetricsCount = 0 \<rparr>,
        (sampleWorld False True)
          \<lparr> files := (files (sampleWorld False True))
               (''/repo/.overstory/sessions.json.tmp'' := None,
                ''/repo/.overstory/sessions.json'' \<mapsto> ''session-dead-coordinator zombie T0;'' @ [CHR 0x0A]),
            oplog := [WriteFile ''/repo/.overstory/sessions.json.tmp''
                        (''session-dead-coordinator zombie T0;'' @ [CHR 0x0A]),
                      RenameFile ''/repo/.overstory/sessions.json.tmp''
                        ''/repo/.overstory/sessions.json''] \<rparr>)"
proof -
  have st: "state sampleSession = Working"
    by (simp add: sampleSession_def)
  have s: "JSON_stringify sampleRuntime [sampleSession\<lparr>state := Zombie\<rparr>] =
           ''session-dead-coordinator zombie T0;''"
    by (simp add: sampleRuntime_def sampleSession_def)
  show ?thesis
    apply (simp add: gatherStatus_def sampleStatusCollaborators_def)
    apply (simp add: andThen_def [of "status_loadSessions _ _"] sample_status_load)
    apply (simp add: andThen_def tryCatch_def listSessions_io_def ret_def st s Let_def
        Bun_write_def rename_def attempt_def sampleWorld_def)
    done
qed

lemma sample_gatherStatus_unwritable:
  "gatherStatus sampleRuntime sampleStatusCollaborators ''/repo'' ''orchestrator''
          (sampleWorld False False) =
       (Inr \<lparr> agents = [sampleSession\<lparr>state := Zombie\<rparr>], worktrees = [], tmuxSessions = [],
           unreadMailCount = 0, mergeQueueCount = 0, recentMetricsCount = 0 \<rparr>,
        sampleWorld False False)"
proof -
  have st: "state sampleSession = Working"
    by (simp add: sampleSession_def)
  show ?thesis
    apply (simp add: gatherStatus_def sampleStatusCollaborators_def)
    apply (simp add: andThen_def [of "status_loadSessions _ _"] sample_status_load)
    apply (simp add: andThen_def tryCatch_def listSessions_io_def ret_def st Let_def
        Bun_write_def rename_def attempt_def sampleWorld_def)
    done
qed

lemma saveSessions_oplog:
  "writable w p \<Longrightarrow>
   oplog (snd (saveSessions rt p ss w)) = oplog w @ [WriteFile p (JSON_stringify rt ss @ [CHR 0x0A])]"
  by (simp add: saveSessions_writable)

lemma reconcile_fst:
  "fst (reconcile tmux ss u) =
     map (\<lambda>s. if (state s = Booting \<or> state s = Working \<or> state s = Stalled) \<and>
                  \<not> list_ex (\<lambda>t. fst t = tmuxSession s) tmux
               then s\<lparr>state := Zombie\<rparr> else s) ss"
  by (induction ss arbitrary: u) (simp_all add: Let_def case_prod_beta)

lemma reconcile_lastActivity:
  "map lastActivity (fst (reconcile tmux ss u)) = map lastActivity ss"
  by (simp add: reconcile_fst)

lemma map_of_deployedHooks:
  "map_of (deployedHooks teamTools gs template agent capOpt) category =
     map_option
       (\<lambda>rules.
          (if category = ''PreToolUse''
           then getDangerGuards gs agent @
                getCapabilityGuards teamTools gs (case capOpt of None \<Rightarrow> ''builder'' | Some c \<Rightarrow> c)
           else []) @
          map (substituteEntry agent) rules)
       (map_of template category)"
  unfolding deployedHooks_def Let_def
  by (induction template) auto

lemma dropWhile_guards:
  assumes "list_all (\<lambda>e. matcher e \<noteq> []) gs" and "list_all (\<lambda>e. matcher e = []) bs"
  shows "dropWhile (\<lambda>e. matcher e \<noteq> []) (gs @ bs) = bs"
proof -
  from assms(1) have "dropWhile (\<lambda>e. matcher e \<noteq> []) (gs @ bs) = dropWhile (\<lambda>e. matcher e \<noteq> []) bs"
    by (induction gs) auto
  also from assms(2) have "\<dots> = bs"
    by (cases bs) auto
  finally show ?thesis .
qed

lemma capability_guards_nonempty_matchers:
  assumes "list_all (\<lambda>(tool, reason). tool \<noteq> []) teamTools"
  shows "list_all (\<lambda>e. matcher e \<noteq> []) (getCapabilityGuards teamTools gs cap)"
  using assms
  by (auto simp: getCapabilityGuards_def blockGuard_def WRITE_TOOLS_def list_all_iff)

lemma substituteEntry_base:
  "list_all (\<lambda>e. matcher e = []) base \<Longrightarrow>
   list_all (\<lambda>e. matcher e = []) (map (substituteEntry agent) base)"
  by (induction base) (auto simp: substituteEntry_def)

lemma deployHooks_io_missing_template:
  "file_text w (templateFile dr) = Inl x \<Longrightarrow>
   \<exists>msg. deployHooks_io dr teamTools gs workspace agent capOpt w =
            (Inl (AgentError msg (Some agent)), w)"
  by (simp add: deployHooks_io_def tagged_def tryCatch_def andThen_def text_io_def throw_def)

lemma deployHooks_io_destination:
  assumes "file_text w (templateFile dr) = Inr content"
    and "parseTemplate dr content = Inr template"
    and "\<not> writable w (join [workspace, ''.claude'']) \<or>
         \<not> writable w (join [join [workspace, ''.claude''], ''settings.local.json''])"
  shows "\<exists>msg. deployHooks_io dr teamTools gs workspace agent capOpt w =
            (Inl (AgentError msg (Some agent)), w)"
  using assms
  by (auto simp: deployHooks_io_def tagged_def tryCatch_def andThen_def text_io_def throw_def
      outcome_def mkdir_recursive_def Bun_write_def Let_def)

lemma deployHooks_io_writes:
  assumes "file_text w (templateFile dr) = Inr content"
    and "parseTemplate dr content = Inr template"
    and "writable w (join [workspace, ''.claude''])"
    and "writable w (join [join [workspace, ''.claude''], ''settings.local.json''])"
  shows "\<exists>w'. deployHooks_io dr teamTools gs workspace agent capOpt w = (Inr (), w') \<and>
           files w' (join [join [workspace, ''.claude''], ''settings.local.json'']) =
             Some (printConfig dr (deployedHooks teamTools gs template agent capOpt))"
  using assms
  by (simp add: deployHooks_io_def tagged_def tryCatch_def andThen_def text_io_def throw_def
      outcome_def mkdir_recursive_def Bun_write_def Let_def)

lemma trim_sample: "trim '' no such domain '' = ''no such domain''"
  by (simp add: trim_def trimStart_def trimEnd_def whiteSpace_def stripLeading.simps)

section \<open>Claims\<close>

text \<open>
  C3. Starting the coordinator when the registry holds a coordinator session that is
  neither completed nor zombie: if its multiplexer session is alive, the start fails with
  the \<^verbatim>\<open>AgentError\<close> "already running", which names the coordinator, and the world
  (the registry with it) is unchanged. If it is dead and the registry can be written, the
  record found is marked completed, and that list is the first thing the run writes to
  the registry, whatever happens later; and when the deployment of the hooks, the
  identity, the creation of the multiplexer session and the two inputs sent to it
  succeed, the run returns, and its second and last write adds one new session in state
  booting to the list.
\<close>

theorem startCoordinator_existing_session:
  assumes cfg: "loadConfig col = Inr cfg"
    and p: "p = join [root cfg, ''.overstory'', ''sessions.json'']"
    and ld: "loadSessions rt p w = (Inr sessions, w)"
    and ex: "findCoordinatorSession sessions = Some existing"
    and mk: "marked = updateFirst isActiveCoordinator (\<lambda>s. s\<lparr>state := Completed\<rparr>) sessions"
  shows
    "(isSessionAlive w (tmuxSession existing) \<longrightarrow>
        startCoordinator rt col args isTTY w =
          (Inl (AgentError (''Coordinator is already running (tmux: '' @ tmuxSession existing @
                            '', since: '' @ startedAt existing @ '')'') (Some ''coordinator'')), w)) \<and>
     (\<not> isSessionAlive w (tmuxSession existing) \<and> writable w p \<longrightarrow>
        (\<exists>ys zs. sessions = ys @ existing # zs \<and> marked = ys @ existing\<lparr>state := Completed\<rparr> # zs) \<and>
        (\<exists>rest. oplog (snd (startCoordinator rt col args isTTY w)) =
                  oplog w @ WriteFile p (JSON_stringify rt marked @ [CHR 0x0A]) # rest) \<and>
        (deployHooks col (root cfg) ''coordinator'' ''coordinator'' = None \<and>
         ensureIdentity col (join [root cfg, ''.overstory'', ''agents'']) ''coordinator'' = None \<and>
         createSession col ''overstory-coordinator'' (root cfg)
           ''claude --model opus --dangerously-skip-permissions'' = Inr newPid \<and>
         sendKeys col ''overstory-coordinator'' (buildCoordinatorBeacon (beaconTime col)) = None \<and>
         sendKeys col ''overstory-coordinator'' [] = None \<longrightarrow>
           (\<exists>out w' session.
              startCoordinator rt col args isTTY w = (Inr out, w') \<and>
              state session = Booting \<and> agentName session = ''coordinator'' \<and>
              capability session = ''coordinator'' \<and>
              tmuxSession session = ''overstory-coordinator'' \<and> pid session = newPid \<and>
              files w' p = Some (JSON_stringify rt (marked @ [session]) @ [CHR 0x0A]) \<and>
              oplog w' = oplog w @ [WriteFile p (JSON_stringify rt marked @ [CHR 0x0A]),
                                    WriteFile p (JSON_stringify rt (marked @ [session]) @ [CHR 0x0A])])))"
proof (intro conjI impI)
  assume "isSessionAlive w (tmuxSession existing)"
  with cfg ld ex show "startCoordinator rt col args isTTY w =
          (Inl (AgentError (''Coordinator is already running (tmux: '' @ tmuxSession existing @
                            '', since: '' @ startedAt existing @ '')'') (Some ''coordinator'')), w)"
    unfolding p
    by (simp add: startCoordinator_def Let_def andThen_loadSessions COORDINATOR_NAME_def)
next
  assume "\<not> isSessionAlive w (tmuxSession existing) \<and> writable w p"
  from ex have "List.find isActiveCoordinator sessions = Some existing"
    by (simp add: findCoordinatorSession_def)
  from updateFirst_find [OF this, of "\<lambda>s. s\<lparr>state := Completed\<rparr>"]
  show "\<exists>ys zs. sessions = ys @ existing # zs \<and> marked = ys @ existing\<lparr>state := Completed\<rparr> # zs"
    unfolding mk by blast
next
  assume d: "\<not> isSessionAlive w (tmuxSession existing) \<and> writable w p"
  with cfg ld ex show "\<exists>rest. oplog (snd (startCoordinator rt col args isTTY w)) =
                  oplog w @ WriteFile p (JSON_stringify rt marked @ [CHR 0x0A]) # rest"
    unfolding p mk
    apply (simp add: startCoordinator_def Let_def andThen_loadSessions andThen_saveSessions)
    apply (cases "deployHooks col (root cfg) COORDINATOR_NAME ''coordinator''"; simp)
    apply (cases "ensureIdentity col (join [root cfg, ''.overstory'', ''agents'']) COORDINATOR_NAME"; simp)
    apply (cases "createSession col TMUX_SESSION (root cfg) ''claude --model opus --dangerously-skip-permissions''"; simp)
    apply (cases "sendKeys col TMUX_SESSION (buildCoordinatorBeacon (beaconTime col))"; simp)
    apply (cases "sendKeys col TMUX_SESSION []"; simp)
    apply (simp add: andThen_saveSessions ret_def)
    done
next
  assume d: "\<not> isSessionAlive w (tmuxSession existing) \<and> writable w p"
    and c: "deployHooks col (root cfg) ''coordinator'' ''coordinator'' = None \<and>
         ensureIdentity col (join [root cfg, ''.overstory'', ''agents'']) ''coordinator'' = None \<and>
         createSession col ''overstory-coordinator'' (root cfg)
           ''claude --model opus --dangerously-skip-permissions'' = Inr newPid \<and>
         sendKeys col ''overstory-coordinator'' (buildCoordinatorBeacon (beaconTime col)) = None \<and>
         sendKeys col ''overstory-coordinator'' [] = None"
  let ?session = "\<lparr> sessionId = ''session-'' @ showNat (idMillis col) @ ''-'' @ COORDINATOR_NAME,
                      agentName = COORDINATOR_NAME,
                      capability = ''coordinator'',
                      worktreePath = root cfg,
                      branchName = canonicalBranch cfg,
                      beadId = [],
                      tmuxSession = TMUX_SESSION,
                      state = Booting,
                      pid = newPid,
                      parentAgent = None,
                      depth = 0,
                      startedAt = startedAtTime col,
                      lastActivity = lastActivityTime col \<rparr>"
  from cfg ld ex d c
  have "\<exists>out w'. startCoordinator rt col args isTTY w = (Inr out, w') \<and>
          files w' p = Some (JSON_stringify rt (marked @ [?session]) @ [CHR 0x0A]) \<and>
          oplog w' = oplog w @ [WriteFile p (JSON_stringify rt marked @ [CHR 0x0A]),
                                WriteFile p (JSON_stringify rt (marked @ [?session]) @ [CHR 0x0A])]"
    unfolding p mk
    by (simp add: startCoordinator_def Let_def andThen_loadSessions andThen_saveSessions
        COORDINATOR_NAME_def TMUX_SESSION_def ret_def)
  then show "\<exists>out w' session.
              startCoordinator rt col args isTTY w = (Inr out, w') \<and>
              state session = Booting \<and> agentName session = ''coordinator'' \<and>
              capability session = ''coordinator'' \<and>
              tmuxSession session = ''overstory-coordinator'' \<and> pid session = newPid \<and>
              files w' p = Some (JSON_stringify rt (marked @ [session]) @ [CHR 0x0A]) \<and>
              oplog w' = oplog w @ [WriteFile p (JSON_stringify rt marked @ [CHR 0x0A]),
                                    WriteFile p (JSON_stringify rt (marked @ [session]) @ [CHR 0x0A])]"
    by (elim exE conjE, intro exI [of _ ?session] exI conjI)
       (simp_all add: COORDINATOR_NAME_def TMUX_SESSION_def)
qed

theorem startCoordinator_existing_session_witness:
  "startCoordinator sampleRuntime sampleCollaborators [] False (sampleWorld True True) =
     (Inl (AgentError ''Coordinator is already running (tmux: overstory-coordinator, since: T0)''
             (Some ''coordinator'')), sampleWorld True True) \<and>
   (\<exists>out w' session.
      startCoordinator sampleRuntime sampleCollaborators [] False (sampleWorld False True) = (Inr out, w') \<and>
      state session = Booting \<and> agentName session = ''coordinator'' \<and>
      capability session = ''coordinator'' \<and>
      tmuxSession session = ''overstory-coordinator'' \<and> pid session = 99999 \<and>
      files w' ''/repo/.overstory/sessions.json'' =
        Some (JSON_stringify sampleRuntime ([sampleSession\<lparr>state := Completed\<rparr>] @ [session]) @ [CHR 0x0A]) \<and>
      oplog w' =
        [WriteFile ''/repo/.overstory/sessions.json''
           (JSON_stringify sampleRuntime [sampleSession\<lparr>state := Completed\<rparr>] @ [CHR 0x0A]),
         WriteFile ''/repo/.overstory/sessions.json''
           (JSON_stringify sampleRuntime ([sampleSession\<lparr>state := Completed\<rparr>] @ [session]) @ [CHR 0x0A])])"
proof -
  have ld: "loadSessions sampleRuntime ''/repo/.overstory/sessions.json'' (sampleWorld a True) =
              (Inr [sampleSession], sampleWorld a True)" for a
    by (simp add: loadSessions_def andThen_def exists_io_def tryCatch_def text_io_def outcome_def
        ret_def file_exists_def file_text_def sampleRuntime_def sampleWorld_def)
  have fd: "findCoordinatorSession [sampleSession] = Some sampleSession"
    by (simp add: findCoordinatorSession_def isActiveCoordinator_def sampleSession_def
        COORDINATOR_NAME_def)
  have mk: "[sampleSession\<lparr>state := Completed\<rparr>] =
              updateFirst isActiveCoordinator (\<lambda>s. s\<lparr>state := Completed\<rparr>) [sampleSession]"
    by (simp add: isActiveCoordinator_def sampleSession_def COORDINATOR_NAME_def)
  have cfg: "loadConfig sampleCollaborators = Inr sampleConfig"
    by (simp add: sampleCollaborators_def)
  have p: "''/repo/.overstory/sessions.json'' =
             join [root sampleConfig, ''.overstory'', ''sessions.json'']"
    by (simp add: sampleConfig_def)
  note alive = startCoordinator_existing_session
      [OF cfg p ld [of True] fd mk, of "[]" False 99999]
  note dead = startCoordinator_existing_session
      [OF cfg p ld [of False] fd mk, of "[]" False 99999]
  have a: "isSessionAlive (sampleWorld True True) (tmuxSession sampleSession)"
    by (simp add: sampleWorld_def)
  have d: "\<not> isSessionAlive (sampleWorld False True) (tmuxSession sampleSession) \<and>
           writable (sampleWorld False True) ''/repo/.overstory/sessions.json''"
    by (simp add: sampleWorld_def)
  have c: "deployHooks sampleCollaborators (root sampleConfig)
             ''coordinator'' ''coordinator'' = None \<and>
         ensureIdentity sampleCollaborators
           (join [root sampleConfig, ''.overstory'', ''agents''])
           ''coordinator'' = None \<and>
         createSession sampleCollaborators ''overstory-coordinator''
           (root sampleConfig)
           ''claude --model opus --dangerously-skip-permissions'' = Inr 99999 \<and>
         sendKeys sampleCollaborators ''overstory-coordinator''
           (buildCoordinatorBeacon (beaconTime sampleCollaborators)) = None \<and>
         sendKeys sampleCollaborators ''overstory-coordinator'' [] = None"
    by (simp add: sampleCollaborators_def sampleConfig_def)
  have o: "oplog (sampleWorld False True) = []"
    by (simp add: sampleWorld_def)
  from alive a have 1: "startCoordinator sampleRuntime sampleCollaborators [] False (sampleWorld True True) =
     (Inl (AgentError ''Coordinator is already running (tmux: overstory-coordinator, since: T0)''
             (Some ''coordinator'')), sampleWorld True True)"
    by (simp add: sampleSession_def)
  from dead d c o have 2: "\<exists>out w' session.
      startCoordinator sampleRuntime sampleCollaborators [] False (sampleWorld False True) = (Inr out, w') \<and>
      state session = Booting \<and> agentName session = ''coordinator'' \<and>
      capability session = ''coordinator'' \<and>
      tmuxSession session = ''overstory-coordinator'' \<and> pid session = 99999 \<and>
      files w' ''/repo/.overstory/sessions.json'' =
        Some (JSON_stringify sampleRuntime ([sampleSession\<lparr>state := Completed\<rparr>] @ [session]) @ [CHR 0x0A]) \<and>
      oplog w' =
        [WriteFile ''/repo/.overstory/sessions.json''
           (JSON_stringify sampleRuntime [sampleSession\<lparr>state := Completed\<rparr>] @ [CHR 0x0A]),
         WriteFile ''/repo/.overstory/sessions.json''
           (JSON_stringify sampleRuntime ([sampleSession\<lparr>state := Completed\<rparr>] @ [session]) @ [CHR 0x0A])]"
    by simp
  from 1 2 show ?thesis by blast
qed

text \<open>
  C8. \<^verbatim>\<open>loadSessions\<close> never raises and leaves the world as it was; on a missing
  registry file, and on a registry file whose content the parser rejects, it returns the
  empty list.
\<close>

theorem loadSessions_never_raises:
  "(\<exists>v. loadSessions rt p w = (Inr v, w)) \<and>
   (\<not> file_exists w p \<longrightarrow> loadSessions rt p w = (Inr [], w)) \<and>
   (\<forall>t e. files w p = Some t \<and> JSON_parse rt t = Inl e \<longrightarrow> loadSessions rt p w = (Inr [], w))"
  by (auto simp: loadSessions_def andThen_def exists_io_def tryCatch_def text_io_def outcome_def
      ret_def file_exists_def file_text_def split: sum.splits prod.splits)

theorem loadSessions_never_raises_witness:
  "loadSessions sampleRuntime ''/repo/.overstory/nonexistent.json'' (sampleWorld False True)
     = (Inr [], sampleWorld False True) \<and>
   loadSessions sampleRuntime ''/repo/.overstory/broken.json'' (sampleWorld False True)
     = (Inr [], sampleWorld False True)"
  using loadSessions_never_raises [of sampleRuntime "''/repo/.overstory/nonexistent.json''" "sampleWorld False True"]
        loadSessions_never_raises [of sampleRuntime "''/repo/.overstory/broken.json''" "sampleWorld False True"]
  by (simp add: sampleRuntime_def sampleWorld_def file_exists_def)

text \<open>
  C9, as stated, fails: the \<^verbatim>\<open>AgentError\<close> that \<^verbatim>\<open>runMulch\<close> throws when the
  subprocess exits with a non-zero code is built from the message alone and carries no
  agent name.
\<close>

theorem runMulch_error_has_no_agent_name:
  "runMulch failingMulch ''/repo'' [''query'', ''cli''] ''query'' =
     Inl (AgentError ''mulch query failed (exit 1): no such domain'' None) \<and>
   isAgentError (AgentError ''mulch query failed (exit 1): no such domain'' None) \<and>
   errorAgentName (AgentError ''mulch query failed (exit 1): no such domain'' None) = None"
  by (simp add: runMulch_def runCommand_def failingMulch_def showInt_def showNat.simps trim_sample)

text \<open>
  C9, amended. Every \<^verbatim>\<open>AgentError\<close> raised for a duplicate start, a missing session or
  a deployment failure carries the agent name: the start of the coordinator while its
  session is alive, and its stop when the registry holds no active coordinator session,
  fail with an \<^verbatim>\<open>AgentError\<close> that names the coordinator; a deployment of the hooks
  whose template cannot be read, or whose destination directory or file cannot be
  written, fails with an \<^verbatim>\<open>AgentError\<close> that names the agent deployed for. The
  \<^verbatim>\<open>AgentError\<close> thrown for a mulch subprocess that exits non-zero carries the context,
  the exit code and the trimmed standard error in its message, and no agent name.
\<close>

theorem agentError_names:
  "(\<forall>cfg sessions existing.
        loadConfig col = Inr cfg \<and>
        loadSessions rt (join [root cfg, ''.overstory'', ''sessions.json'']) w = (Inr sessions, w) \<and>
        findCoordinatorSession sessions = Some existing \<and>
        isSessionAlive w (tmuxSession existing) \<longrightarrow>
        (\<exists>msg. startCoordinator rt col args' isTTY w = (Inl (AgentError msg (Some ''coordinator'')), w))) \<and>
   (\<forall>cfg sessions.
        loadConfig col = Inr cfg \<and>
        loadSessions rt (join [root cfg, ''.overstory'', ''sessions.json'']) w = (Inr sessions, w) \<and>
        findCoordinatorSession sessions = None \<longrightarrow>
        stopCoordinator rt col args' w =
          (Inl (AgentError ''No active coordinator session found'' (Some ''coordinator'')), w)) \<and>
   (\<forall>x. file_text w (templateFile dr) = Inl x \<longrightarrow>
        (\<exists>msg. deployHooks_io dr teamTools gs workspace agent capOpt w =
                  (Inl (AgentError msg (Some agent)), w))) \<and>
   (\<forall>content template.
        file_text w (templateFile dr) = Inr content \<and> parseTemplate dr content = Inr template \<and>
        (\<not> writable w (join [workspace, ''.claude'']) \<or>
         \<not> writable w (join [join [workspace, ''.claude''], ''settings.local.json''])) \<longrightarrow>
        (\<exists>msg. deployHooks_io dr teamTools gs workspace agent capOpt w =
                  (Inl (AgentError msg (Some agent)), w))) \<and>
   (\<forall>r. spawn (''mulch'' # args) cwd = Inr r \<and> exitCode r \<noteq> 0 \<longrightarrow>
        runMulch spawn cwd args ctx =
          Inl (AgentError (''mulch '' @ ctx @ '' failed (exit '' @ showInt (exitCode r) @ ''): '' @
                           trim (stderr r)) None))"
proof (intro conjI allI impI)
  fix cfg sessions existing
  assume "loadConfig col = Inr cfg \<and>
        loadSessions rt (join [root cfg, ''.overstory'', ''sessions.json'']) w = (Inr sessions, w) \<and>
        findCoordinatorSession sessions = Some existing \<and>
        isSessionAlive w (tmuxSession existing)"
  then show "\<exists>msg. startCoordinator rt col args' isTTY w =
                (Inl (AgentError msg (Some ''coordinator'')), w)"
    by (simp add: startCoordinator_def Let_def andThen_loadSessions COORDINATOR_NAME_def)
next
  fix cfg sessions
  assume "loadConfig col = Inr cfg \<and>
        loadSessions rt (join [root cfg, ''.overstory'', ''sessions.json'']) w = (Inr sessions, w) \<and>
        findCoordinatorSession sessions = None"
  then show "stopCoordinator rt col args' w =
          (Inl (AgentError ''No active coordinator session found'' (Some ''coordinator'')), w)"
    by (simp add: stopCoordinator_def Let_def andThen_loadSessions COORDINATOR_NAME_def throw_def)
next
  fix x
  assume "file_text w (templateFile dr) = Inl x"
  then show "\<exists>msg. deployHooks_io dr teamTools gs workspace agent capOpt w =
                  (Inl (AgentError msg (Some agent)), w)"
    by (rule deployHooks_io_missing_template)
next
  fix content template
  assume "file_text w (templateFile dr) = Inr content \<and> parseTemplate dr content = Inr template \<and>
        (\<not> writable w (join [workspace, ''.claude'']) \<or>
         \<not> writable w (join [join [workspace, ''.claude''], ''settings.local.json'']))"
  then show "\<exists>msg. deployHooks_io dr teamTools gs workspace agent capOpt w =
                  (Inl (AgentError msg (Some agent)), w)"
    using deployHooks_io_destination [of w dr content template workspace] by blast
next
  fix r
  assume "spawn (''mulch'' # args) cwd = Inr r \<and> exitCode r \<noteq> 0"
  then show "runMulch spawn cwd args ctx =
          Inl (AgentError (''mulch '' @ ctx @ '' failed (exit '' @ showInt (exitCode r) @ ''): '' @
                           trim (stderr r)) None)"
    by (simp add: runMulch_def runCommand_def)
qed

theorem agentError_names_witness:
  "(\<exists>msg. startCoordinator sampleRuntime sampleCollaborators [] False (sampleWorld True True) =
      (Inl (AgentError msg (Some ''coordinator'')), sampleWorld True True)) \<and>
   stopCoordinator sampleRuntime sampleCollaborators [] (sampleWorld True True \<lparr> files := Map.empty \<rparr>) =
     (Inl (AgentError ''No active coordinator session found'' (Some ''coordinator'')),
      sampleWorld True True \<lparr> files := Map.empty \<rparr>) \<and>
   (\<exists>msg. deployHooks_io sampleDeployRuntime sampleTeamTools sampleScripts ''/repo/worktree''
            ''fail-agent'' None (sampleWorld True True) =
      (Inl (AgentError msg (Some ''fail-agent'')), sampleWorld True True)) \<and>
   (\<exists>msg. deployHooks_io sampleDeployRuntime sampleTeamTools sampleScripts
            ''/dev/null/impossible-path'' ''fail-agent'' None (deployWorld False) =
      (Inl (AgentError msg (Some ''fail-agent'')), deployWorld False)) \<and>
   runMulch failingMulch ''/repo'' [''query'', ''cli''] ''query'' =
     Inl (AgentError ''mulch query failed (exit 1): no such domain'' None)"
proof -
  note t = agentError_names [of sampleCollaborators sampleRuntime _ "[]" False sampleDeployRuntime
      sampleTeamTools sampleScripts _ "''fail-agent''" None failingMulch "[''query'', ''cli'']"
      "''/repo''" "''query''"]
  have m: "failingMulch (''mulch'' # [''query'', ''cli'']) ''/repo'' =
             Inr \<lparr> stdout = [], stderr = '' no such domain '', exitCode = 1 \<rparr>"
    by (simp add: failingMulch_def)
  have c: "loadConfig sampleCollaborators = Inr sampleConfig"
    by (simp add: sampleCollaborators_def)
  have a: "isSessionAlive (sampleWorld True True) (tmuxSession sampleSession)"
    by (simp add: sampleWorld_def)
  have e: "loadSessions sampleRuntime (join [root sampleConfig, ''.overstory'', ''sessions.json''])
             (sampleWorld True True \<lparr> files := Map.empty \<rparr>) =
           (Inr [], sampleWorld True True \<lparr> files := Map.empty \<rparr>)"
    by (simp add: loadSessions_def andThen_def exists_io_def ret_def file_exists_def)
  have l: "loadSessions sampleRuntime (join [root sampleConfig, ''.overstory'', ''sessions.json''])
             (sampleWorld True True) = (Inr [sampleSession], sampleWorld True True)"
    using sample_load [of True True] by (simp add: sampleConfig_def)
  have n: "findCoordinatorSession [] = None"
    by (simp add: findCoordinatorSession_def)
  have f: "file_text (sampleWorld True True) (templateFile sampleDeployRuntime) =
             Inl (IOError ''/overstory/templates/hooks.json.tmpl'')"
    by (simp add: file_text_def sampleWorld_def sampleDeployRuntime_def)
  have g: "file_text (deployWorld False) (templateFile sampleDeployRuntime) = Inr ''[template]''"
    "parseTemplate sampleDeployRuntime ''[template]'' = Inr sampleTemplate"
    "\<not> writable (deployWorld False) p" for p
    by (simp_all add: file_text_def deployWorld_def sampleDeployRuntime_def)
  have 1: "\<exists>msg. startCoordinator sampleRuntime sampleCollaborators [] False (sampleWorld True True) =
      (Inl (AgentError msg (Some ''coordinator'')), sampleWorld True True)"
    using t [of "sampleWorld True True" "''/repo/worktree''"] c l sample_find a by blast
  have 2: "stopCoordinator sampleRuntime sampleCollaborators [] (sampleWorld True True \<lparr> files := Map.empty \<rparr>) =
     (Inl (AgentError ''No active coordinator session found'' (Some ''coordinator'')),
      sampleWorld True True \<lparr> files := Map.empty \<rparr>)"
    using t [of "sampleWorld True True \<lparr> files := Map.empty \<rparr>" "''/repo/worktree''"] c e n by blast
  have 3: "\<exists>msg. deployHooks_io sampleDeployRuntime sampleTeamTools sampleScripts ''/repo/worktree''
            ''fail-agent'' None (sampleWorld True True) =
      (Inl (AgentError msg (Some ''fail-agent'')), sampleWorld True True)"
    using t [of "sampleWorld True True" "''/repo/worktree''"] f by blast
  have 4: "\<exists>msg. deployHooks_io sampleDeployRuntime sampleTeamTools sampleScripts
            ''/dev/null/impossible-path'' ''fail-agent'' None (deployWorld False) =
      (Inl (AgentError msg (Some ''fail-agent'')), deployWorld False)"
    using t [of "deployWorld False" "''/dev/null/impossible-path''"] g by blast
  have 5: "runMulch failingMulch ''/repo'' [''query'', ''cli''] ''query'' =
     Inl (AgentError ''mulch query failed (exit 1): no such domain'' None)"
    using t [of "sampleWorld True True" "''/repo/worktree''"] m
    by (simp add: showInt_def showNat.simps trim_sample)
  from 1 2 3 4 5 show ?thesis by blast
qed

text \<open>
  C10. \<^verbatim>\<open>resolveAttach\<close> returns true whenever the argument list contains
  \<^verbatim>\<open>--attach\<close>, whatever the TTY flag and also when \<^verbatim>\<open>--no-attach\<close> is present too;
  it returns false when the list contains \<^verbatim>\<open>--no-attach\<close> and not \<^verbatim>\<open>--attach\<close>; and
  otherwise it returns the TTY flag unchanged.
\<close>

theorem resolveAttach_flags:
  "(''--attach'' \<in> set args \<longrightarrow> resolveAttach args isTTY = True) \<and>
   (''--attach'' \<notin> set args \<and> ''--no-attach'' \<in> set args \<longrightarrow> resolveAttach args isTTY = False) \<and>
   (''--attach'' \<notin> set args \<and> ''--no-attach'' \<notin> set args \<longrightarrow> resolveAttach args isTTY = isTTY)"
  by (simp add: resolveAttach_def)

theorem resolveAttach_flags_witness:
  "resolveAttach [''--attach'', ''--no-attach''] False = True \<and>
   resolveAttach [''--json'', ''--no-attach''] True = False \<and>
   resolveAttach [''--json''] True = True \<and>
   resolveAttach [] False = False"
  using resolveAttach_flags [of "[''--attach'', ''--no-attach'']" False]
        resolveAttach_flags [of "[''--json'', ''--no-attach'']" True]
        resolveAttach_flags [of "[''--json'']" True]
        resolveAttach_flags [of "[]" False]
  by simp

text \<open>
  C4, on the code. \<^verbatim>\<open>saveSessions\<close> is a single \<^verbatim>\<open>Bun.write\<close> to the registry path: a
  stop of the coordinator on a registry that holds one working coordinator session
  changes the disk by exactly one write in place of the registry file, with no temporary
  file and no rename. The reconciliation write of \<^verbatim>\<open>gatherStatus\<close> on the same
  registry goes through a temporary file and a rename.
\<close>

theorem stopCoordinator_writes_registry_in_place:
  "oplog (snd (stopCoordinator sampleRuntime sampleCollaborators [] (sampleWorld True True))) =
     [WriteFile ''/repo/.overstory/sessions.json''
        (''session-dead-coordinator completed T3;'' @ [CHR 0x0A])] \<and>
   \<not> atomicReplaceOnly ''/repo/.overstory/sessions.json''
       (oplog (snd (stopCoordinator sampleRuntime sampleCollaborators [] (sampleWorld True True)))) \<and>
   oplog (snd (gatherStatus sampleRuntime sampleStatusCollaborators ''/repo'' ''orchestrator''
                 (sampleWorld False True))) =
     [WriteFile ''/repo/.overstory/sessions.json.tmp''
        (''session-dead-coordinator zombie T0;'' @ [CHR 0x0A]),
      RenameFile ''/repo/.overstory/sessions.json.tmp'' ''/repo/.overstory/sessions.json''] \<and>
   atomicReplaceOnly ''/repo/.overstory/sessions.json''
       (oplog (snd (gatherStatus sampleRuntime sampleStatusCollaborators ''/repo'' ''orchestrator''
                      (sampleWorld False True))))"
proof -
  have w: "writable (sampleWorld True True) ''/repo/.overstory/sessions.json''"
    by (simp add: sampleWorld_def)
  have c: "loadConfig sampleCollaborators = Inr sampleConfig" "root sampleConfig = ''/repo''"
    "killSession sampleCollaborators n = None" "lastActivityTime sampleCollaborators = ''T3''" for n
    by (simp_all add: sampleCollaborators_def sampleConfig_def)
  have u: "isActiveCoordinator sampleSession"
    using sample_find by (simp add: findCoordinatorSession_def split: if_splits)
  have "oplog (snd (stopCoordinator sampleRuntime sampleCollaborators [] (sampleWorld True True))) =
     [WriteFile ''/repo/.overstory/sessions.json''
        (JSON_stringify sampleRuntime
           [sampleSession\<lparr>state := Completed, lastActivity := ''T3''\<rparr>] @ [CHR 0x0A])]"
    using w
    by (simp add: stopCoordinator_def Let_def c andThen_loadSessions [OF sample_load] sample_find u
        andThen_saveSessions ret_def)
       (simp add: sampleWorld_def)
  moreover have "JSON_stringify sampleRuntime
           [sampleSession\<lparr>state := Completed, lastActivity := ''T3''\<rparr>] =
           ''session-dead-coordinator completed T3;''"
    by (simp add: sampleRuntime_def sampleSession_def)
  ultimately show ?thesis
    by (simp add: atomicReplaceOnly_def sample_gatherStatus)
qed

text \<open>
  C5, on the code. On a registry that holds one working session whose multiplexer session
  is gone, \<^verbatim>\<open>gatherStatus\<close> returns the session as a zombie and persists it with the last
  activity it had before: the loop assigns \<^verbatim>\<open>state\<close> only. It returns the same result
  when the registry cannot be written. \<^verbatim>\<open>statusCoordinator\<close> on the same registry does
  update the last activity, and fails with the write's error when the registry cannot be
  written.
\<close>

theorem gatherStatus_keeps_lastActivity:
  "fst (gatherStatus sampleRuntime sampleStatusCollaborators ''/repo'' ''orchestrator''
          (sampleWorld False True)) =
     Inr \<lparr> agents = [sampleSession\<lparr>state := Zombie\<rparr>], worktrees = [], tmuxSessions = [],
           unreadMailCount = 0, mergeQueueCount = 0, recentMetricsCount = 0 \<rparr> \<and>
   lastActivity (sampleSession\<lparr>state := Zombie\<rparr>) = lastActivity sampleSession \<and>
   files (snd (gatherStatus sampleRuntime sampleStatusCollaborators ''/repo'' ''orchestrator''
          (sampleWorld False True))) ''/repo/.overstory/sessions.json'' =
     Some (''session-dead-coordinator zombie T0;'' @ [CHR 0x0A]) \<and>
   fst (gatherStatus sampleRuntime sampleStatusCollaborators ''/repo'' ''orchestrator''
          (sampleWorld False False)) =
     Inr \<lparr> agents = [sampleSession\<lparr>state := Zombie\<rparr>], worktrees = [], tmuxSessions = [],
           unreadMailCount = 0, mergeQueueCount = 0, recentMetricsCount = 0 \<rparr> \<and>
   statusCoordinator sampleRuntime sampleCollaborators [] (sampleWorld False True) =
     (Inr (Some \<lparr> st_running = False, st_sessionId = ''session-dead-coordinator'',
                  st_state = Zombie, st_tmuxSession = ''overstory-coordinator'', st_pid = 99999,
                  st_startedAt = ''T0'', st_lastActivity = ''T3'' \<rparr>),
      (sampleWorld False True)
        \<lparr> files := (files (sampleWorld False True))
             (''/repo/.overstory/sessions.json'' \<mapsto> ''session-dead-coordinator zombie T3;'' @ [CHR 0x0A]),
          oplog := [WriteFile ''/repo/.overstory/sessions.json''
                      (''session-dead-coordinator zombie T3;'' @ [CHR 0x0A])] \<rparr>) \<and>
   statusCoordinator sampleRuntime sampleCollaborators [] (sampleWorld False False) =
     (Inl (IOError ''/repo/.overstory/sessions.json''), sampleWorld False False)"
proof -
  have st: "state sampleSession = Working"
    by (simp add: sampleSession_def)
  have c: "loadConfig sampleCollaborators = Inr sampleConfig" "root sampleConfig = ''/repo''"
    "lastActivityTime sampleCollaborators = ''T3''"
    by (simp_all add: sampleCollaborators_def sampleConfig_def)
  have u: "isActiveCoordinator sampleSession"
    using sample_find by (simp add: findCoordinatorSession_def split: if_splits)
  have nw: "\<not> writable (sampleWorld False False) ''/repo/.overstory/sessions.json''"
    "writable (sampleWorld False True) ''/repo/.overstory/sessions.json''"
    "\<not> isSessionAlive (sampleWorld False b) n" for n b
    by (simp_all add: sampleWorld_def)
  have s: "JSON_stringify sampleRuntime [sampleSession\<lparr>state := Zombie, lastActivity := ''T3''\<rparr>] =
           ''session-dead-coordinator zombie T3;''"
    by (simp add: sampleRuntime_def sampleSession_def)
  have t: "statusCoordinator sampleRuntime sampleCollaborators [] (sampleWorld False False) =
     (Inl (IOError ''/repo/.overstory/sessions.json''), sampleWorld False False)"
    using nw
    apply (simp add: statusCoordinator_def Let_def c andThen_loadSessions [OF sample_load] sample_find st)
    apply (simp add: andThen_def saveSessions_unwritable)
    done
  have t': "statusCoordinator sampleRuntime sampleCollaborators [] (sampleWorld False True) =
     (Inr (Some \<lparr> st_running = False, st_sessionId = ''session-dead-coordinator'',
                  st_state = Zombie, st_tmuxSession = ''overstory-coordinator'', st_pid = 99999,
                  st_startedAt = ''T0'', st_lastActivity = ''T3'' \<rparr>),
      (sampleWorld False True)
        \<lparr> files := (files (sampleWorld False True))
             (''/repo/.overstory/sessions.json'' \<mapsto> ''session-dead-coordinator zombie T3;'' @ [CHR 0x0A]),
          oplog := [WriteFile ''/repo/.overstory/sessions.json''
                      (''session-dead-coordinator zombie T3;'' @ [CHR 0x0A])] \<rparr>)"
    using nw
    apply (simp add: statusCoordinator_def Let_def c andThen_loadSessions [OF sample_load] sample_find st u)
    apply (simp add: andThen_saveSessions s ret_def)
    apply (simp add: sampleSession_def sampleWorld_def)
    done
  from t t' show ?thesis
    by (simp add: sample_gatherStatus sample_gatherStatus_unwritable)
qed

text \<open>
  C1. For every capability, \<^verbatim>\<open>getCapabilityGuards\<close> returns exactly 14 guard rules when
  the capability is scout, reviewer, lead, coordinator or supervisor, and exactly 10 for
  any other label (builder, merger, an unknown one), given the ten universal blocks.
\<close>

theorem getCapabilityGuards_count:
  assumes "length teamTools = 10"
  shows "length (getCapabilityGuards teamTools gs cap) =
           (if cap \<in> {''scout'', ''reviewer'', ''lead'', ''coordinator'', ''supervisor''}
            then 14 else 10)"
  using assms
  by (simp add: getCapabilityGuards_def NON_IMPLEMENTATION_CAPABILITIES_def WRITE_TOOLS_def)

theorem getCapabilityGuards_count_witness:
  "length (getCapabilityGuards sampleTeamTools sampleScripts ''scout'') = 14 \<and>
   length (getCapabilityGuards sampleTeamTools sampleScripts ''reviewer'') = 14 \<and>
   length (getCapabilityGuards sampleTeamTools sampleScripts ''lead'') = 14 \<and>
   length (getCapabilityGuards sampleTeamTools sampleScripts ''coordinator'') = 14 \<and>
   length (getCapabilityGuards sampleTeamTools sampleScripts ''supervisor'') = 14 \<and>
   length (getCapabilityGuards sampleTeamTools sampleScripts ''builder'') = 10 \<and>
   length (getCapabilityGuards sampleTeamTools sampleScripts ''merger'') = 10 \<and>
   length (getCapabilityGuards sampleTeamTools sampleScripts ''unknown'') = 10"
proof -
  have l: "length sampleTeamTools = 10"
    by (simp add: sampleTeamTools_def)
  note t = getCapabilityGuards_count [OF l, of sampleScripts]
  show ?thesis
    using t [of "''scout''"] t [of "''reviewer''"] t [of "''lead''"] t [of "''coordinator''"]
      t [of "''supervisor''"] t [of "''builder''"] t [of "''merger''"] t [of "''unknown''"]
    by simp
qed

text \<open>
  C7. In the pre-tool-use list of a deployed config, for a template whose pre-tool-use
  rules are unconditional (empty matcher) and team tools with non-empty names: the list
  is the danger guard on \<^verbatim>\<open>Bash\<close>, then the capability's guards, all with a non-empty
  matcher, then the template's rules, all with an empty matcher; so every rule with a
  non-empty matcher precedes the first rule with an empty matcher, and the danger guard
  precedes the capability's tool blocks.
\<close>

theorem deployedHooks_guard_order:
  assumes tpl: "map_of template ''PreToolUse'' = Some base"
    and base: "list_all (\<lambda>e. matcher e = []) base"
    and tools: "list_all (\<lambda>(tool, reason). tool \<noteq> []) teamTools"
    and cap: "cap = (case capOpt of None \<Rightarrow> ''builder'' | Some c \<Rightarrow> c)"
  shows "\<exists>pre rest.
           map_of (deployedHooks teamTools gs template agent capOpt) ''PreToolUse'' = Some pre \<and>
           guardsBeforeBase pre \<and>
           pre = \<lparr> matcher = ''Bash'',
                   hooks = [\<lparr> hookType = ''command'', command = dangerScript gs agent \<rparr>] \<rparr> #
                 getCapabilityGuards teamTools gs cap @ rest \<and>
           list_all (\<lambda>e. matcher e \<noteq> []) (getCapabilityGuards teamTools gs cap) \<and>
           list_all (\<lambda>e. matcher e = []) rest \<and>
           length rest = length base"
proof -
  let ?guards = "getDangerGuards gs agent @ getCapabilityGuards teamTools gs cap"
  let ?rest = "map (substituteEntry agent) base"
  have pre: "map_of (deployedHooks teamTools gs template agent capOpt) ''PreToolUse'' =
               Some (?guards @ ?rest)"
    by (simp add: map_of_deployedHooks tpl cap)
  have g: "list_all (\<lambda>e. matcher e \<noteq> []) ?guards"
    using capability_guards_nonempty_matchers [OF tools]
    by (simp add: getDangerGuards_def)
  have r: "list_all (\<lambda>e. matcher e = []) ?rest"
    by (rule substituteEntry_base [OF base])
  have "guardsBeforeBase (?guards @ ?rest)"
    unfolding guardsBeforeBase_def dropWhile_guards [OF g r] by (rule r)
  with pre g r show ?thesis
    by (intro exI [of _ "?guards @ ?rest"] exI [of _ ?rest])
       (simp add: getDangerGuards_def)
qed

theorem deployedHooks_guard_order_witness:
  "\<exists>pre rest.
     map_of (deployedHooks sampleTeamTools sampleScripts sampleTemplate ''scout-order'' (Some ''scout''))
       ''PreToolUse'' = Some pre \<and>
     guardsBeforeBase pre \<and>
     pre = \<lparr> matcher = ''Bash'',
             hooks = [\<lparr> hookType = ''command'', command = ''danger overstory/scout-order/'' \<rparr>] \<rparr> #
           getCapabilityGuards sampleTeamTools sampleScripts ''scout'' @ rest \<and>
     list_all (\<lambda>e. matcher e \<noteq> []) (getCapabilityGuards sampleTeamTools sampleScripts ''scout'') \<and>
     list_all (\<lambda>e. matcher e = []) rest \<and>
     length rest = 1"
proof -
  have tpl: "map_of sampleTemplate ''PreToolUse'' = Some [sampleBaseRule]"
    by (simp add: sampleTemplate_def)
  have base: "list_all (\<lambda>e. matcher e = []) [sampleBaseRule]"
    by (simp add: sampleBaseRule_def)
  have tools: "list_all (\<lambda>(tool, reason). tool \<noteq> []) sampleTeamTools"
    by (simp add: sampleTeamTools_def)
  have cap: "''scout'' = (case Some ''scout'' of None \<Rightarrow> ''builder'' | Some c \<Rightarrow> c)"
    by simp
  show ?thesis
    using deployedHooks_guard_order [OF tpl base tools cap, of sampleScripts "''scout-order''"]
    by (simp add: sampleScripts_def)
qed

end
